theory Spec2Isabelle
  imports Main
begin

section \<open>Python values\<close>

text \<open>
  The values that travel between \<^verbatim>\<open>EcsService\<close> and the boto3 ECS client are JSON-like:
  \<^verbatim>\<open>None\<close>, booleans, integers, strings, lists and dictionaries with string keys.
  A dictionary is an association list; a lookup takes the first entry of a key.
\<close>

datatype pyval =
    PNone
  | PBool bool
  | PInt int
  | PStr string
  | PList "pyval list"
  | PDict "(string \<times> pyval) list"

type_synonym pydict = "(string \<times> pyval) list"

text \<open>\<^verbatim>\<open>d.get(key, default)\<close> on a dictionary.\<close>

definition dict_get :: "pydict \<Rightarrow> string \<Rightarrow> pyval \<Rightarrow> pyval" where
  "dict_get d key dflt = (case map_of d key of Some v \<Rightarrow> v | None \<Rightarrow> dflt)"

text \<open>An optional string passed as a keyword argument: \<^verbatim>\<open>None\<close> stays \<^verbatim>\<open>None\<close>.\<close>

fun opt_str :: "string option \<Rightarrow> pyval" where
  "opt_str None = PNone"
| "opt_str (Some s) = PStr s"

section \<open>The resource descriptor\<close>

text \<open>
  Modelled from the spec: the classes \<^verbatim>\<open>EcsCluster\<close> and \<^verbatim>\<open>EcsTaskDefinition\<close> are
  imported by \<^verbatim>\<open>service.py\<close> from modules that are not among the sources. The service
  reads only \<^verbatim>\<open>cluster.name\<close> and \<^verbatim>\<open>task_definition.get_task_family()\<close>, "the object's
  name/task family", so an object is represented by the string that the attribute or the
  method yields.
\<close>

datatype EcsCluster = EcsCluster (cluster_name: string)

datatype EcsTaskDefinition = EcsTaskDefinition (get_task_family: string)

text \<open>\<^verbatim>\<open>Optional[Union[EcsCluster, str]]\<close> and \<^verbatim>\<open>Optional[Union[EcsTaskDefinition, str]]\<close>:
  the \<^verbatim>\<open>isinstance\<close> test of the source is the case distinction on the constructor.\<close>

datatype cluster_ref = ClusterObj EcsCluster | ClusterStr string

datatype task_definition_ref = TaskDefinitionObj EcsTaskDefinition | TaskDefinitionStr string

text \<open>The \<^verbatim>\<open>Literal[...]\<close> field types, with the strings they stand for.\<close>

datatype launch_type_literal = EC2 | FARGATE | EXTERNAL

datatype scheduling_strategy_literal = REPLICA | DAEMON

datatype propagate_tags_literal = TASK_DEFINITION | SERVICE | NONE

fun launch_type_str :: "launch_type_literal \<Rightarrow> string" where
  "launch_type_str EC2 = ''EC2''"
| "launch_type_str FARGATE = ''FARGATE''"
| "launch_type_str EXTERNAL = ''EXTERNAL''"

fun scheduling_strategy_str :: "scheduling_strategy_literal \<Rightarrow> string" where
  "scheduling_strategy_str REPLICA = ''REPLICA''"
| "scheduling_strategy_str DAEMON = ''DAEMON''"

fun propagate_tags_str :: "propagate_tags_literal \<Rightarrow> string" where
  "propagate_tags_str TASK_DEFINITION = ''TASK_DEFINITION''"
| "propagate_tags_str SERVICE = ''SERVICE''"
| "propagate_tags_str NONE = ''NONE''"

text \<open>
  The fields of \<^verbatim>\<open>class EcsService\<close>, in the order of the source. An \<^verbatim>\<open>Optional\<close> field
  is an \<open>option\<close>, \<open>None\<close> being Python's \<^verbatim>\<open>None\<close>. The last field, \<^verbatim>\<open>active_resource\<close>,
  is the cached observed state that the class inherits from \<^verbatim>\<open>AwsResource\<close>; it is the
  only field that the operations assign.
\<close>

record EcsService =
  name :: string
  ecs_service_name :: "string option"
  cluster :: "cluster_ref option"
  task_definition :: "task_definition_ref option"
  load_balancers :: "pydict list option"
  service_registries :: "pydict list option"
  desired_count :: "int option"
  client_token :: "string option"
  launch_type :: "launch_type_literal option"
  capacity_provider_strategy :: "pydict list option"
  platform_version :: "string option"
  role :: "string option"
  deployment_configuration :: "pydict option"
  placement_constraints :: "pydict list option"
  placement_strategy :: "pydict list option"
  network_configuration :: "pydict option"
  health_check_grace_period_seconds :: "int option"
  scheduling_strategy :: "scheduling_strategy_literal option"
  deployment_controller :: "pydict option"
  tags :: "pydict list option"
  enable_ecsmanaged_tags :: "bool option"
  propagate_tags :: "propagate_tags_literal option"
  enable_execute_command :: "bool option"
  force_delete :: "bool option"
  active_resource :: "pyval option"

text \<open>The wire value of a list of dictionaries.\<close>

definition dict_list :: "pydict list \<Rightarrow> pyval" where
  "dict_list ds = PList (map PDict ds)"

subsection \<open>Name resolution\<close>

text \<open>\<^verbatim>\<open>return self.ecs_service_name or self.name\<close>: Python's \<^verbatim>\<open>or\<close> takes the right
  operand when the left one is \<^verbatim>\<open>None\<close> or the empty string.\<close>

definition get_ecs_service_name :: "EcsService \<Rightarrow> string" where
  "get_ecs_service_name self =
     (case ecs_service_name self of
        None \<Rightarrow> name self
      | Some s \<Rightarrow> if s = [] then name self else s)"

text \<open>A Python function that falls off its end returns \<^verbatim>\<open>None\<close>.\<close>

definition get_ecs_cluster_name :: "EcsService \<Rightarrow> string option" where
  "get_ecs_cluster_name self =
     (case cluster self of
        Some (ClusterObj c) \<Rightarrow> Some (cluster_name c)
      | Some (ClusterStr s) \<Rightarrow> Some s
      | None \<Rightarrow> None)"

definition get_ecs_task_definition :: "EcsService \<Rightarrow> string option" where
  "get_ecs_task_definition self =
     (case task_definition self of
        Some (TaskDefinitionObj t) \<Rightarrow> Some (get_task_family t)
      | Some (TaskDefinitionStr s) \<Rightarrow> Some s
      | None \<Rightarrow> None)"

section \<open>The remote client\<close>

text \<open>
  The boto3 ECS client is a parameter of every operation. A call carries its keyword
  arguments, a dictionary from argument names to values; it either returns a response
  dictionary or raises. \<^verbatim>\<open>ClientError\<close> is botocore's exception, \<^verbatim>\<open>AttributeError\<close> is
  what \<^verbatim>\<open>.get\<close> raises on a value that is not a dictionary, and \<^verbatim>\<open>OtherException\<close>
  stands for every other subclass of \<^verbatim>\<open>Exception\<close>. \<^verbatim>\<open>get_service_client\<close>, which
  the class inherits and calls outside of \<^verbatim>\<open>try\<close>, is taken to hand the client over.
  \<^verbatim>\<open>UpdateService\<close> is the remote update call; no operation of the source issues it.
\<close>

type_synonym kwargs = "string \<rightharpoonup> pyval"

datatype request =
    CreateService kwargs
  | DescribeServices kwargs
  | DeleteService kwargs
  | UpdateService kwargs

datatype exn = ClientError string | AttributeError | OtherException string

datatype response = Returns pydict | Raises exn

type_synonym service_client = "request \<Rightarrow> response"

text \<open>
  What an operation does, in program order: assignments to \<^verbatim>\<open>self.active_resource\<close> and
  calls of the remote client. Console and logger output is not modelled; it changes
  neither a return value nor a field.
\<close>

datatype event = RemoteCall request | CacheAssign "pyval option"

text \<open>The outcome of an operation: the value returned, the object afterwards, and the
  events in the order in which they happened.\<close>

datatype 'a outcome = Outcome (result: 'a) (self_after: EcsService) (trace: "event list")

definition remote_calls :: "event list \<Rightarrow> request list" where
  "remote_calls evs = concat (map (\<lambda>e. case e of RemoteCall r \<Rightarrow> [r] | CacheAssign _ \<Rightarrow> []) evs)"

section \<open>Building the arguments\<close>

text \<open>\<^verbatim>\<open>if val is not None: not_null_args[key] = val\<close>.\<close>

definition set_if_not_none :: "string \<Rightarrow> pyval option \<Rightarrow> kwargs \<Rightarrow> kwargs" where
  "set_if_not_none key val not_null_args =
     (case val of None \<Rightarrow> not_null_args | Some v \<Rightarrow> not_null_args(key \<mapsto> v))"

text \<open>Lines 89 to 134 of \<^verbatim>\<open>_create\<close>: the dictionary \<^verbatim>\<open>not_null_args\<close>, one conditional
  assignment after the other, starting from the empty dictionary.\<close>

definition create_not_null_args :: "EcsService \<Rightarrow> kwargs" where
  "create_not_null_args self =
     (set_if_not_none ''enableExecuteCommand'' (map_option PBool (enable_execute_command self))
     (set_if_not_none ''propagateTags'' (map_option (PStr \<circ> propagate_tags_str) (propagate_tags self))
     (set_if_not_none ''enableECSManagedTags'' (map_option PBool (enable_ecsmanaged_tags self))
     (set_if_not_none ''tags'' (map_option dict_list (tags self))
     (set_if_not_none ''deploymentController'' (map_option PDict (deployment_controller self))
     (set_if_not_none ''schedulingStrategy'' (map_option (PStr \<circ> scheduling_strategy_str) (scheduling_strategy self))
     (set_if_not_none ''healthCheckGracePeriodSeconds'' (map_option PInt (health_check_grace_period_seconds self))
     (set_if_not_none ''networkConfiguration'' (map_option PDict (network_configuration self))
     (set_if_not_none ''placementStrategy'' (map_option dict_list (placement_strategy self))
     (set_if_not_none ''placementConstraints'' (map_option dict_list (placement_constraints self))
     (set_if_not_none ''deploymentConfiguration'' (map_option PDict (deployment_configuration self))
     (set_if_not_none ''role'' (map_option PStr (role self))
     (set_if_not_none ''platformVersion'' (map_option PStr (platform_version self))
     (set_if_not_none ''capacityProviderStrategy'' (map_option dict_list (capacity_provider_strategy self))
     (set_if_not_none ''launchType'' (map_option (PStr \<circ> launch_type_str) (launch_type self))
     (set_if_not_none ''clientToken'' (map_option PStr (client_token self))
     (set_if_not_none ''desiredCount'' (map_option PInt (desired_count self))
     (set_if_not_none ''serviceRegistries'' (map_option dict_list (service_registries self))
     (set_if_not_none ''loadBalancers'' (map_option dict_list (load_balancers self))
     (set_if_not_none ''cluster'' (map_option PStr (get_ecs_cluster_name self))
      Map.empty))))))))))))))))))))"

text \<open>
  The keyword arguments of \<^verbatim>\<open>create_service\<close>: \<^verbatim>\<open>serviceName\<close> and \<^verbatim>\<open>taskDefinition\<close> are
  written out in the call, whatever their value, and \<^verbatim>\<open>**not_null_args\<close> adds the rest
  (no key of \<^verbatim>\<open>not_null_args\<close> is one of the two, so Python accepts the call).
\<close>

definition create_kwargs :: "EcsService \<Rightarrow> kwargs" where
  "create_kwargs self =
     (create_not_null_args self)
       (''serviceName'' \<mapsto> PStr (get_ecs_service_name self),
        ''taskDefinition'' \<mapsto> opt_str (get_ecs_task_definition self))"

text \<open>\<^verbatim>\<open>describe_services(services=[service_name], **not_null_args)\<close>.\<close>

definition read_kwargs :: "EcsService \<Rightarrow> kwargs" where
  "read_kwargs self =
     (set_if_not_none ''cluster'' (map_option PStr (get_ecs_cluster_name self)) Map.empty)
       (''services'' \<mapsto> PList [PStr (get_ecs_service_name self)])"

text \<open>\<^verbatim>\<open>delete_service(service=self.get_ecs_service_name(), **not_null_args)\<close>.\<close>

definition delete_kwargs :: "EcsService \<Rightarrow> kwargs" where
  "delete_kwargs self =
     (set_if_not_none ''force'' (map_option PBool (force_delete self))
     (set_if_not_none ''cluster'' (map_option PStr (get_ecs_cluster_name self)) Map.empty))
       (''service'' \<mapsto> PStr (get_ecs_service_name self))"

section \<open>The operations\<close>

text \<open>
  \<^verbatim>\<open>_create\<close>: one call of \<^verbatim>\<open>create_service\<close> inside \<^verbatim>\<open>try\<close>. The response's
  \<^verbatim>\<open>"service"\<close> entry defaults to the empty dictionary; when it is not \<^verbatim>\<open>None\<close> the whole
  response becomes the cached state and the result is \<^verbatim>\<open>True\<close>. Any exception is caught
  and the function falls through to \<^verbatim>\<open>return False\<close>.
\<close>

definition EcsService_create :: "service_client \<Rightarrow> EcsService \<Rightarrow> bool outcome" where
  "EcsService_create service_client self =
     (let req = CreateService (create_kwargs self) in
      case service_client req of
        Returns create_response \<Rightarrow>
          (let resource_dict = dict_get create_response ''service'' (PDict []) in
           if resource_dict \<noteq> PNone
           then Outcome True (self\<lparr>active_resource := Some (PDict create_response)\<rparr>)
                  [RemoteCall req, CacheAssign (Some (PDict create_response))]
           else Outcome False self [RemoteCall req])
      | Raises e \<Rightarrow> Outcome False self [RemoteCall req])"

text \<open>
  The loop of \<^verbatim>\<open>_read\<close> over \<^verbatim>\<open>resource_list\<close>. It stops at the first entry whose
  \<^verbatim>\<open>serviceName\<close> equals the service name and whose \<^verbatim>\<open>status\<close> is \<^verbatim>\<open>"ACTIVE"\<close>
  (\<open>Inr (Some resource)\<close>), runs off the end of the list (\<open>Inr None\<close>), or meets an
  entry that is not a dictionary, on which \<^verbatim>\<open>resource.get\<close> raises (\<open>Inl AttributeError\<close>).
\<close>

fun find_active :: "string \<Rightarrow> pyval list \<Rightarrow> exn + pyval option" where
  "find_active service_name [] = Inr None"
| "find_active service_name (resource # rest) =
     (case resource of
        PDict d \<Rightarrow>
          (if dict_get d ''serviceName'' PNone = PStr service_name
           then (if dict_get d ''status'' PNone = PStr ''ACTIVE''
                 then Inr (Some resource)
                 else find_active service_name rest)
           else find_active service_name rest)
      | _ \<Rightarrow> Inl AttributeError)"

text \<open>
  \<^verbatim>\<open>_read\<close>: one call of \<^verbatim>\<open>describe_services\<close> inside \<^verbatim>\<open>try\<close>. Only a matching active
  entry is assigned to the cache; both \<^verbatim>\<open>except\<close> clauses only report, and the function
  returns \<^verbatim>\<open>self.active_resource\<close> on every path.
\<close>

definition EcsService_read :: "service_client \<Rightarrow> EcsService \<Rightarrow> pyval option outcome" where
  "EcsService_read service_client self =
     (let service_name = get_ecs_service_name self;
          req = DescribeServices (read_kwargs self) in
      case service_client req of
        Returns describe_response \<Rightarrow>
          (case dict_get describe_response ''services'' PNone of
             PList resource_list \<Rightarrow>
               (case find_active service_name resource_list of
                  Inr (Some resource) \<Rightarrow>
                    Outcome (Some resource) (self\<lparr>active_resource := Some resource\<rparr>)
                      [RemoteCall req, CacheAssign (Some resource)]
                | Inr None \<Rightarrow> Outcome (active_resource self) self [RemoteCall req]
                | Inl e \<Rightarrow> Outcome (active_resource self) self [RemoteCall req])
           | _ \<Rightarrow> Outcome (active_resource self) self [RemoteCall req])
      | Raises e \<Rightarrow> Outcome (active_resource self) self [RemoteCall req])"

text \<open>
  \<^verbatim>\<open>_delete\<close>: the cache is set to \<^verbatim>\<open>None\<close>, then \<^verbatim>\<open>delete_service\<close> is called inside
  \<^verbatim>\<open>try\<close>; \<^verbatim>\<open>True\<close> when the call returns, \<^verbatim>\<open>False\<close> when it raises.
\<close>

definition EcsService_delete :: "service_client \<Rightarrow> EcsService \<Rightarrow> bool outcome" where
  "EcsService_delete service_client self =
     (let req = DeleteService (delete_kwargs self);
          self1 = self\<lparr>active_resource := None\<rparr> in
      case service_client req of
        Returns delete_response \<Rightarrow> Outcome True self1 [CacheAssign None, RemoteCall req]
      | Raises e \<Rightarrow> Outcome False self1 [CacheAssign None, RemoteCall req])"

text \<open>\<^verbatim>\<open>_update\<close>: prints a line and returns \<^verbatim>\<open>True\<close>.\<close>

definition EcsService_update :: "service_client \<Rightarrow> EcsService \<Rightarrow> bool outcome" where
  "EcsService_update service_client self = Outcome True self []"

section \<open>The field table of the create payload\<close>

text \<open>
  The projector of the specification, in its own words: a fixed name-translation table
  from local field names to wire names, and a payload that holds exactly the fields
  whose declared value is present. \<open>create_field\<close> lists the fields that the create call
  translates, the two parent references among them; \<open>wire_name\<close> is the translation.
  \<open>declared_value\<close> is what a descriptor declares for a field: it is read off the field
  itself, \<open>None\<close> exactly when the field is unset, a parent reference standing for the
  string it names (\<open>cluster_ref_name\<close>, \<open>task_definition_ref_name\<close>). \<open>field_is_set\<close>
  says that the field has a value. None of these uses a function of the source; they
  are compared with \<open>create_kwargs\<close>, which follows the source.
\<close>

datatype create_field =
    F_cluster | F_task_definition | F_load_balancers | F_service_registries
  | F_desired_count | F_client_token
  | F_launch_type | F_capacity_provider_strategy | F_platform_version | F_role
  | F_deployment_configuration | F_placement_constraints | F_placement_strategy
  | F_network_configuration | F_health_check_grace_period_seconds | F_scheduling_strategy
  | F_deployment_controller | F_tags | F_enable_ecsmanaged_tags | F_propagate_tags
  | F_enable_execute_command

fun wire_name :: "create_field \<Rightarrow> string" where
  "wire_name F_cluster = ''cluster''"
| "wire_name F_task_definition = ''taskDefinition''"
| "wire_name F_load_balancers = ''loadBalancers''"
| "wire_name F_service_registries = ''serviceRegistries''"
| "wire_name F_desired_count = ''desiredCount''"
| "wire_name F_client_token = ''clientToken''"
| "wire_name F_launch_type = ''launchType''"
| "wire_name F_capacity_provider_strategy = ''capacityProviderStrategy''"
| "wire_name F_platform_version = ''platformVersion''"
| "wire_name F_role = ''role''"
| "wire_name F_deployment_configuration = ''deploymentConfiguration''"
| "wire_name F_placement_constraints = ''placementConstraints''"
| "wire_name F_placement_strategy = ''placementStrategy''"
| "wire_name F_network_configuration = ''networkConfiguration''"
| "wire_name F_health_check_grace_period_seconds = ''healthCheckGracePeriodSeconds''"
| "wire_name F_scheduling_strategy = ''schedulingStrategy''"
| "wire_name F_deployment_controller = ''deploymentController''"
| "wire_name F_tags = ''tags''"
| "wire_name F_enable_ecsmanaged_tags = ''enableECSManagedTags''"
| "wire_name F_propagate_tags = ''propagateTags''"
| "wire_name F_enable_execute_command = ''enableExecuteCommand''"

fun cluster_ref_name :: "cluster_ref \<Rightarrow> string" where
  "cluster_ref_name (ClusterObj c) = cluster_name c"
| "cluster_ref_name (ClusterStr s) = s"

fun task_definition_ref_name :: "task_definition_ref \<Rightarrow> string" where
  "task_definition_ref_name (TaskDefinitionObj t) = get_task_family t"
| "task_definition_ref_name (TaskDefinitionStr s) = s"

fun declared_value :: "EcsService \<Rightarrow> create_field \<Rightarrow> pyval option" where
  "declared_value self F_cluster = map_option (PStr \<circ> cluster_ref_name) (cluster self)"
| "declared_value self F_task_definition = map_option (PStr \<circ> task_definition_ref_name) (task_definition self)"
| "declared_value self F_load_balancers = map_option dict_list (load_balancers self)"
| "declared_value self F_service_registries = map_option dict_list (service_registries self)"
| "declared_value self F_desired_count = map_option PInt (desired_count self)"
| "declared_value self F_client_token = map_option PStr (client_token self)"
| "declared_value self F_launch_type = map_option (PStr \<circ> launch_type_str) (launch_type self)"
| "declared_value self F_capacity_provider_strategy = map_option dict_list (capacity_provider_strategy self)"
| "declared_value self F_platform_version = map_option PStr (platform_version self)"
| "declared_value self F_role = map_option PStr (role self)"
| "declared_value self F_deployment_configuration = map_option PDict (deployment_configuration self)"
| "declared_value self F_placement_constraints = map_option dict_list (placement_constraints self)"
| "declared_value self F_placement_strategy = map_option dict_list (placement_strategy self)"
| "declared_value self F_network_configuration = map_option PDict (network_configuration self)"
| "declared_value self F_health_check_grace_period_seconds = map_option PInt (health_check_grace_period_seconds self)"
| "declared_value self F_scheduling_strategy = map_option (PStr \<circ> scheduling_strategy_str) (scheduling_strategy self)"
| "declared_value self F_deployment_controller = map_option PDict (deployment_controller self)"
| "declared_value self F_tags = map_option dict_list (tags self)"
| "declared_value self F_enable_ecsmanaged_tags = map_option PBool (enable_ecsmanaged_tags self)"
| "declared_value self F_propagate_tags = map_option (PStr \<circ> propagate_tags_str) (propagate_tags self)"
| "declared_value self F_enable_execute_command = map_option PBool (enable_execute_command self)"

definition field_is_set :: "EcsService \<Rightarrow> create_field \<Rightarrow> bool" where
  "field_is_set self f = (declared_value self f \<noteq> None)"

section \<open>The entry that a describe response holds for a service\<close>

text \<open>
  In the words of the specification: the service entry of a describe response whose
  \<^verbatim>\<open>serviceName\<close> matches and whose \<^verbatim>\<open>status\<close> is \<^verbatim>\<open>ACTIVE\<close>. \<open>described_active\<close> picks the
  first such entry of the response's \<^verbatim>\<open>services\<close> list. There is none when the call
  raised, when \<^verbatim>\<open>services\<close> is missing or not a list, when no entry matches, or when an
  entry that is not a dictionary stands before the first match.
\<close>

fun is_dict :: "pyval \<Rightarrow> bool" where
  "is_dict (PDict d) = True"
| "is_dict v = False"

fun is_active_entry :: "string \<Rightarrow> pyval \<Rightarrow> bool" where
  "is_active_entry service_name (PDict d) =
     (dict_get d ''serviceName'' PNone = PStr service_name
      \<and> dict_get d ''status'' PNone = PStr ''ACTIVE'')"
| "is_active_entry service_name v = False"

definition first_active_entry :: "string \<Rightarrow> pyval list \<Rightarrow> pyval option" where
  "first_active_entry service_name rs =
     (if list_all is_dict (takeWhile (\<lambda>r. \<not> is_active_entry service_name r) rs)
      then find (is_active_entry service_name) rs
      else None)"

definition described_active :: "string \<Rightarrow> response \<Rightarrow> pyval option" where
  "described_active service_name resp =
     (case resp of
        Returns describe_response \<Rightarrow>
          (case dict_get describe_response ''services'' PNone of
             PList rs \<Rightarrow> first_active_entry service_name rs
           | _ \<Rightarrow> None)
      | Raises e \<Rightarrow> None)"

section \<open>Descriptors and clients of the scenarios\<close>

text \<open>The descriptor of the specification's scenario: service \<^verbatim>\<open>web\<close> on cluster
  \<^verbatim>\<open>prod\<close> with a desired count of 3, every other field unset.\<close>

definition web_service :: EcsService where
  "web_service =
     \<lparr>name = ''web'', ecs_service_name = None, cluster = Some (ClusterStr ''prod''),
      task_definition = None, load_balancers = None, service_registries = None,
      desired_count = Some 3, client_token = None, launch_type = None,
      capacity_provider_strategy = None, platform_version = None, role = None,
      deployment_configuration = None, placement_constraints = None,
      placement_strategy = None, network_configuration = None,
      health_check_grace_period_seconds = None, scheduling_strategy = None,
      deployment_controller = None, tags = None, enable_ecsmanaged_tags = None,
      propagate_tags = None, enable_execute_command = None, force_delete = None,
      active_resource = None\<rparr>"

text \<open>The entry that the remote API reports for the running service.\<close>

definition web_entry :: pyval where
  "web_entry =
     PDict [(''serviceName'', PStr ''web''), (''status'', PStr ''ACTIVE''),
            (''desiredCount'', PInt 3)]"

text \<open>The same descriptor once the service has been observed, and after the caller has
  raised the desired count to 5.\<close>

definition cached_service :: EcsService where
  "cached_service = web_service\<lparr>active_resource := Some web_entry\<rparr>"

definition drifted_service :: EcsService where
  "drifted_service = cached_service\<lparr>desired_count := Some 5\<rparr>"

text \<open>A remote on which the service does not exist: the describe call lists no service,
  every other call is refused.\<close>

definition absent_client :: service_client where
  "absent_client req =
     (case req of
        DescribeServices kw \<Rightarrow>
          Returns [(''services'', PList []),
                   (''failures'', PList [PDict [(''reason'', PStr ''MISSING'')]])]
      | _ \<Rightarrow> Raises (ClientError ''ServiceNotFoundException''))"

text \<open>A remote on which the service exists already: the describe call lists it, the
  create call is refused.\<close>

definition already_exists_client :: service_client where
  "already_exists_client req =
     (case req of
        DescribeServices kw \<Rightarrow> Returns [(''services'', PList [web_entry])]
      | _ \<Rightarrow> Raises (ClientError ''InvalidParameterException: service already exists''))"

text \<open>A remote that refuses every call for lack of permission.\<close>

definition denied_client :: service_client where
  "denied_client req = Raises (ClientError ''AccessDeniedException'')"

text \<open>A remote whose responses are empty dictionaries.\<close>

definition empty_response_client :: service_client where
  "empty_response_client req = Returns []"

text \<open>A remote whose responses carry \<^verbatim>\<open>"service": None\<close>.\<close>

definition null_service_client :: service_client where
  "null_service_client req = Returns [(''service'', PNone)]"

section \<open>Facts about the argument dictionaries\<close>

lemma set_if_not_none_apply:
  "set_if_not_none key val m k = (if k = key \<and> val \<noteq> None then val else m k)"
  by (cases val) (simp_all add: set_if_not_none_def)

text \<open>The resolvers of the source against the names that the references stand for.\<close>

lemma get_ecs_cluster_name_ref:
  "get_ecs_cluster_name self = map_option cluster_ref_name (cluster self)"
  by (simp add: get_ecs_cluster_name_def split: option.splits cluster_ref.splits)

lemma get_ecs_task_definition_ref:
  "get_ecs_task_definition self = map_option task_definition_ref_name (task_definition self)"
  by (simp add: get_ecs_task_definition_def split: option.splits task_definition_ref.splits)

lemma field_is_set_references:
  "field_is_set self F_cluster = (cluster self \<noteq> None)"
  "field_is_set self F_task_definition = (task_definition self \<noteq> None)"
  by (simp_all add: field_is_set_def)

text \<open>\<^verbatim>\<open>not_null_args\<close> against the table: every field but the task definition stands
  under its wire name with its declared value, and there is no other key.\<close>

lemma create_not_null_args_wire:
  "f \<noteq> F_task_definition \<Longrightarrow> create_not_null_args self (wire_name f) = declared_value self f"
  by (cases f)
    (simp_all add: create_not_null_args_def set_if_not_none_apply get_ecs_cluster_name_ref
      option.map_comp)

lemma create_not_null_args_key:
  "create_not_null_args self k \<noteq> None \<Longrightarrow> \<exists>f. f \<noteq> F_task_definition \<and> k = wire_name f"
proof -
  assume nn: "create_not_null_args self k \<noteq> None"
  have names:
    "''cluster'' = wire_name F_cluster"
    "''loadBalancers'' = wire_name F_load_balancers"
    "''serviceRegistries'' = wire_name F_service_registries"
    "''desiredCount'' = wire_name F_desired_count"
    "''clientToken'' = wire_name F_client_token"
    "''launchType'' = wire_name F_launch_type"
    "''capacityProviderStrategy'' = wire_name F_capacity_provider_strategy"
    "''platformVersion'' = wire_name F_platform_version"
    "''role'' = wire_name F_role"
    "''deploymentConfiguration'' = wire_name F_deployment_configuration"
    "''placementConstraints'' = wire_name F_placement_constraints"
    "''placementStrategy'' = wire_name F_placement_strategy"
    "''networkConfiguration'' = wire_name F_network_configuration"
    "''healthCheckGracePeriodSeconds'' = wire_name F_health_check_grace_period_seconds"
    "''schedulingStrategy'' = wire_name F_scheduling_strategy"
    "''deploymentController'' = wire_name F_deployment_controller"
    "''tags'' = wire_name F_tags"
    "''enableECSManagedTags'' = wire_name F_enable_ecsmanaged_tags"
    "''propagateTags'' = wire_name F_propagate_tags"
    "''enableExecuteCommand'' = wire_name F_enable_execute_command"
    by simp_all
  from nn have "k \<in> {''cluster'', ''loadBalancers'', ''serviceRegistries'', ''desiredCount'',
      ''clientToken'', ''launchType'', ''capacityProviderStrategy'', ''platformVersion'',
      ''role'', ''deploymentConfiguration'', ''placementConstraints'', ''placementStrategy'',
      ''networkConfiguration'', ''healthCheckGracePeriodSeconds'', ''schedulingStrategy'',
      ''deploymentController'', ''tags'', ''enableECSManagedTags'', ''propagateTags'',
      ''enableExecuteCommand''}"
    unfolding create_not_null_args_def set_if_not_none_apply
    by (simp split: if_splits)
  then show ?thesis
    using names by (elim insertE emptyE) (blast intro: create_field.distinct)+
qed

lemma create_not_null_args_no_call_key:
  "create_not_null_args self ''serviceName'' = None"
  "create_not_null_args self ''taskDefinition'' = None"
  by (simp_all add: create_not_null_args_def set_if_not_none_apply)

text \<open>
  The keyword arguments of the create call against the table. A field that is set
  stands under its wire name with its declared value, the task definition included; a
  field other than the task definition that is unset has no key; the keys are
  \<^verbatim>\<open>serviceName\<close>, \<^verbatim>\<open>taskDefinition\<close> and the wire names of the fields that are set.
\<close>

lemma create_kwargs_set_field:
  "field_is_set self f \<Longrightarrow> create_kwargs self (wire_name f) = declared_value self f"
proof (cases "f = F_task_definition")
  case True
  assume "field_is_set self f"
  with True obtain r where "task_definition self = Some r"
    by (auto simp: field_is_set_def)
  with True show ?thesis
    by (simp add: create_kwargs_def get_ecs_task_definition_ref)
next
  case False
  then have "wire_name f \<noteq> ''serviceName''" "wire_name f \<noteq> ''taskDefinition''"
    by (cases f; simp)+
  with False show ?thesis
    by (simp add: create_kwargs_def create_not_null_args_wire)
qed

lemma create_kwargs_unset_field:
  "\<not> field_is_set self f \<Longrightarrow> f \<noteq> F_task_definition \<Longrightarrow> create_kwargs self (wire_name f) = None"
proof -
  assume u: "\<not> field_is_set self f" and f: "f \<noteq> F_task_definition"
  from f have "wire_name f \<noteq> ''serviceName''" "wire_name f \<noteq> ''taskDefinition''"
    by (cases f; simp)+
  with u f show ?thesis
    by (simp add: create_kwargs_def create_not_null_args_wire field_is_set_def)
qed

lemma create_kwargs_dom:
  "dom (create_kwargs self)
     = {''serviceName'', ''taskDefinition''} \<union> {wire_name f |f. field_is_set self f}"
proof (rule set_eqI)
  fix k
  show "k \<in> dom (create_kwargs self)
      \<longleftrightarrow> k \<in> {''serviceName'', ''taskDefinition''} \<union> {wire_name f |f. field_is_set self f}"
  proof
    assume k: "k \<in> dom (create_kwargs self)"
    show "k \<in> {''serviceName'', ''taskDefinition''} \<union> {wire_name f |f. field_is_set self f}"
    proof (cases "k = ''serviceName'' \<or> k = ''taskDefinition''")
      case True
      then show ?thesis by auto
    next
      case False
      with k have nn: "create_not_null_args self k \<noteq> None"
        by (auto simp: create_kwargs_def dom_def)
      then obtain f where f: "f \<noteq> F_task_definition" "k = wire_name f"
        using create_not_null_args_key by blast
      with nn have "field_is_set self f"
        by (simp add: field_is_set_def create_not_null_args_wire)
      with f show ?thesis by blast
    qed
  next
    assume "k \<in> {''serviceName'', ''taskDefinition''} \<union> {wire_name f |f. field_is_set self f}"
    then consider "k = ''serviceName''" | "k = ''taskDefinition''"
      | f where "k = wire_name f" "field_is_set self f" by blast
    then show "k \<in> dom (create_kwargs self)"
    proof cases
      case 1
      then show ?thesis by (simp add: create_kwargs_def)
    next
      case 2
      then show ?thesis by (simp add: create_kwargs_def)
    next
      case 3
      then have "create_kwargs self k \<noteq> None"
        by (simp add: create_kwargs_set_field field_is_set_def)
      then show ?thesis by (simp add: dom_def)
    qed
  qed
qed

section \<open>The create payload\<close>

text \<open>
  Claim C1 says that the create payload holds exactly the wire names of the fields that
  are set, so that a field left unset never appears as a key. The scenario's descriptor
  leaves \<^verbatim>\<open>task_definition\<close> unset; the keyword arguments of the one call that \<^verbatim>\<open>_create\<close>
  makes hold the key \<^verbatim>\<open>taskDefinition\<close>, the wire name of that field, with the value
  \<^verbatim>\<open>None\<close>. The keys of the call are \<^verbatim>\<open>serviceName\<close>, \<^verbatim>\<open>taskDefinition\<close>, \<^verbatim>\<open>cluster\<close> and
  \<^verbatim>\<open>desiredCount\<close>, while the fields that are set are the cluster and the desired count.
\<close>

theorem create_request_has_key_of_unset_field:
  "\<not> field_is_set web_service F_task_definition
   \<and> wire_name F_task_definition \<in> dom (create_kwargs web_service)
   \<and> create_kwargs web_service (wire_name F_task_definition) = Some PNone
   \<and> field_is_set web_service F_cluster
   \<and> create_kwargs web_service (wire_name F_cluster) = Some (PStr ''prod'')
   \<and> field_is_set web_service F_desired_count
   \<and> create_kwargs web_service (wire_name F_desired_count) = Some (PInt 3)
   \<and> trace (EcsService_create denied_client web_service)
       = [RemoteCall (CreateService (create_kwargs web_service))]"
proof -
  have set: "field_is_set web_service F_cluster" "field_is_set web_service F_desired_count"
    and unset: "\<not> field_is_set web_service F_task_definition"
    by (simp_all add: field_is_set_def web_service_def)
  have td: "create_kwargs web_service ''taskDefinition'' = Some PNone"
    by (simp add: create_kwargs_def get_ecs_task_definition_ref web_service_def)
  have "declared_value web_service F_cluster = Some (PStr ''prod'')"
    "declared_value web_service F_desired_count = Some (PInt 3)"
    by (simp_all add: web_service_def)
  with set have "create_kwargs web_service (wire_name F_cluster) = Some (PStr ''prod'')"
    "create_kwargs web_service (wire_name F_desired_count) = Some (PInt 3)"
    by (simp_all only: create_kwargs_set_field)
  moreover have "trace (EcsService_create denied_client web_service)
       = [RemoteCall (CreateService (create_kwargs web_service))]"
    by (simp add: EcsService_create_def denied_client_def)
  ultimately show ?thesis
    using set unset td by (simp add: dom_def)
qed

section \<open>Facts about the operations\<close>

text \<open>The resolvers: a string stands for itself, an object for its name or task family,
  an unset reference for nothing.\<close>

lemma resolvers_canonical:
  "get_ecs_cluster_name (self\<lparr>cluster := Some (ClusterStr s)\<rparr>) = Some s"
  "get_ecs_cluster_name (self\<lparr>cluster := Some (ClusterObj c)\<rparr>) = Some (cluster_name c)"
  "get_ecs_cluster_name (self\<lparr>cluster := None\<rparr>) = None"
  "get_ecs_task_definition (self\<lparr>task_definition := Some (TaskDefinitionStr s)\<rparr>) = Some s"
  "get_ecs_task_definition (self\<lparr>task_definition := Some (TaskDefinitionObj t)\<rparr>) = Some (get_task_family t)"
  "get_ecs_task_definition (self\<lparr>task_definition := None\<rparr>) = None"
  by (simp_all add: get_ecs_cluster_name_def get_ecs_task_definition_def)

text \<open>The \<^verbatim>\<open>cluster\<close> key of the three requests is there exactly when the reference
  resolves to a name; the \<^verbatim>\<open>taskDefinition\<close> key of the create request is always there.\<close>

lemma create_kwargs_cluster:
  "create_kwargs self ''cluster'' = map_option PStr (get_ecs_cluster_name self)"
  by (simp add: create_kwargs_def create_not_null_args_def set_if_not_none_apply)

lemma read_kwargs_cluster:
  "read_kwargs self ''cluster'' = map_option PStr (get_ecs_cluster_name self)"
  by (simp add: read_kwargs_def set_if_not_none_apply)

lemma delete_kwargs_cluster:
  "delete_kwargs self ''cluster'' = map_option PStr (get_ecs_cluster_name self)"
  by (simp add: delete_kwargs_def set_if_not_none_apply)

lemma create_kwargs_task_definition:
  "create_kwargs self ''taskDefinition'' = Some (opt_str (get_ecs_task_definition self))"
  by (simp add: create_kwargs_def)

text \<open>No argument dictionary reads the cache.\<close>

lemma resolvers_cache_independent:
  "get_ecs_service_name (self\<lparr>active_resource := a\<rparr>) = get_ecs_service_name self"
  "get_ecs_cluster_name (self\<lparr>active_resource := a\<rparr>) = get_ecs_cluster_name self"
  "get_ecs_task_definition (self\<lparr>active_resource := a\<rparr>) = get_ecs_task_definition self"
  by (simp_all add: get_ecs_service_name_def get_ecs_cluster_name_def get_ecs_task_definition_def
      split: option.splits)

lemma create_not_null_args_cache_independent:
  "create_not_null_args (self\<lparr>active_resource := a\<rparr>) = create_not_null_args self"
  by (simp add: create_not_null_args_def resolvers_cache_independent)

lemma create_kwargs_cache_independent:
  "create_kwargs (self\<lparr>active_resource := a\<rparr>) = create_kwargs self"
  by (simp add: create_kwargs_def create_not_null_args_cache_independent resolvers_cache_independent)

text \<open>The loop of \<^verbatim>\<open>_read\<close> finds the first active entry of the service, unless an entry
  that is not a dictionary stops it before.\<close>

lemma find_active_first_active_entry:
  "find_active n rs =
     (if list_all is_dict (takeWhile (\<lambda>r. \<not> is_active_entry n r) rs)
      then Inr (find (is_active_entry n) rs) else Inl AttributeError)"
proof (induction rs)
  case Nil
  show ?case by simp
next
  case (Cons r rs)
  show ?case
  proof (cases r)
    case (PDict d)
    with Cons show ?thesis by simp
  qed (simp_all)
qed

lemma first_active_entry_Some:
  "first_active_entry n rs = Some r \<Longrightarrow> r \<in> set rs \<and> is_active_entry n r"
  by (auto simp: first_active_entry_def find_Some_iff split: if_splits)

lemma first_active_entry_dicts:
  "list_all is_dict rs \<Longrightarrow> first_active_entry n rs = find (is_active_entry n) rs"
proof -
  assume a: "list_all is_dict rs"
  have "set (takeWhile (\<lambda>r. \<not> is_active_entry n r) rs) \<subseteq> set rs"
    by (auto dest: set_takeWhileD)
  with a have "list_all is_dict (takeWhile (\<lambda>r. \<not> is_active_entry n r) rs)"
    by (auto simp: list_all_iff)
  then show ?thesis by (simp add: first_active_entry_def)
qed

text \<open>Each operation, path by path.\<close>

lemma read_outcome:
  "EcsService_read c self =
     (case described_active (get_ecs_service_name self) (c (DescribeServices (read_kwargs self))) of
        Some r \<Rightarrow> Outcome (Some r) (self\<lparr>active_resource := Some r\<rparr>)
                    [RemoteCall (DescribeServices (read_kwargs self)), CacheAssign (Some r)]
      | None \<Rightarrow> Outcome (active_resource self) self [RemoteCall (DescribeServices (read_kwargs self))])"
  by (simp add: EcsService_read_def described_active_def first_active_entry_def
      find_active_first_active_entry Let_def
      split: response.splits pyval.splits option.splits)

lemma create_outcome_raises:
  "c (CreateService (create_kwargs self)) = Raises e \<Longrightarrow>
   EcsService_create c self = Outcome False self [RemoteCall (CreateService (create_kwargs self))]"
  by (simp add: EcsService_create_def)

lemma create_outcome_returns:
  "c (CreateService (create_kwargs self)) = Returns resp \<Longrightarrow>
   EcsService_create c self =
     (if map_of resp ''service'' = Some PNone
      then Outcome False self [RemoteCall (CreateService (create_kwargs self))]
      else Outcome True (self\<lparr>active_resource := Some (PDict resp)\<rparr>)
             [RemoteCall (CreateService (create_kwargs self)), CacheAssign (Some (PDict resp))])"
  by (simp add: EcsService_create_def dict_get_def split: option.splits)

lemma delete_outcome:
  "EcsService_delete c self =
     Outcome (case c (DeleteService (delete_kwargs self)) of Returns r \<Rightarrow> True | Raises e \<Rightarrow> False)
       (self\<lparr>active_resource := None\<rparr>)
       [CacheAssign None, RemoteCall (DeleteService (delete_kwargs self))]"
  by (simp add: EcsService_delete_def split: response.splits)

lemma create_self_after:
  "\<exists>a. self_after (EcsService_create c self) = self\<lparr>active_resource := a\<rparr>"
proof (cases "c (CreateService (create_kwargs self))")
  case (Returns resp)
  show ?thesis
  proof (cases "map_of resp ''service'' = Some PNone")
    case True
    with Returns have "self_after (EcsService_create c self) = self\<lparr>active_resource := active_resource self\<rparr>"
      by (simp add: create_outcome_returns)
    then show ?thesis ..
  next
    case False
    with Returns have "self_after (EcsService_create c self) = self\<lparr>active_resource := Some (PDict resp)\<rparr>"
      by (simp add: create_outcome_returns)
    then show ?thesis ..
  qed
next
  case (Raises e)
  then have "self_after (EcsService_create c self) = self\<lparr>active_resource := active_resource self\<rparr>"
    by (simp add: create_outcome_raises)
  then show ?thesis ..
qed

lemma create_remote_calls:
  "remote_calls (trace (EcsService_create c self)) = [CreateService (create_kwargs self)]"
  by (cases "c (CreateService (create_kwargs self))")
    (simp_all add: create_outcome_returns create_outcome_raises remote_calls_def)

section \<open>Update\<close>

text \<open>
  Claim C2 says that \<^verbatim>\<open>_update\<close> calls the remote update API when the declared fields
  differ from the observed state, and reports success only if that call succeeds. The
  descriptor below declares a desired count of 5 while the observed entry holds 3, and
  the remote would refuse an update call; \<^verbatim>\<open>_update\<close> returns \<^verbatim>\<open>True\<close> and calls
  nothing.
\<close>

theorem update_reports_success_without_remote_call:
  "desired_count drifted_service = Some 5
   \<and> active_resource drifted_service = Some web_entry
   \<and> dict_get (case web_entry of PDict d \<Rightarrow> d | _ \<Rightarrow> []) ''desiredCount'' PNone = PInt 3
   \<and> denied_client (UpdateService [''desiredCount'' \<mapsto> PInt 5]) = Raises (ClientError ''AccessDeniedException'')
   \<and> result (EcsService_update denied_client drifted_service) = True
   \<and> remote_calls (trace (EcsService_update denied_client drifted_service)) = []"
  by (simp add: drifted_service_def cached_service_def web_service_def web_entry_def
      dict_get_def denied_client_def EcsService_update_def remote_calls_def)

text \<open>
  Claim C2, amended. For every descriptor and every remote client, \<^verbatim>\<open>_update\<close> issues no
  remote call, assigns nothing, leaves the descriptor and its cache as they are, and
  returns \<^verbatim>\<open>True\<close>.
\<close>

theorem update_is_a_stub:
  "result (EcsService_update service_client self) = True
   \<and> self_after (EcsService_update service_client self) = self
   \<and> trace (EcsService_update service_client self) = []
   \<and> remote_calls (trace (EcsService_update service_client self)) = []"
  by (simp add: EcsService_update_def remote_calls_def)

theorem update_is_a_stub_witness:
  "result (EcsService_update denied_client drifted_service) = True
   \<and> active_resource (self_after (EcsService_update denied_client drifted_service)) = Some web_entry
   \<and> remote_calls (trace (EcsService_update denied_client drifted_service)) = []"
  using update_is_a_stub [of denied_client drifted_service]
  by (simp add: drifted_service_def cached_service_def remote_calls_def)

section \<open>Create on a resource that exists\<close>

text \<open>
  Claim C3 says that \<^verbatim>\<open>_create\<close> reports success when the create call fails because
  the resource exists and its identity matches. On the remote below the service \<^verbatim>\<open>web\<close>
  exists (the describe call lists it under the descriptor's service name) and the create
  call is refused; \<^verbatim>\<open>_create\<close> returns \<^verbatim>\<open>False\<close>.
\<close>

theorem create_already_exists_reports_failure:
  "already_exists_client (CreateService (create_kwargs web_service))
     = Raises (ClientError ''InvalidParameterException: service already exists'')
   \<and> result (EcsService_read already_exists_client web_service) = Some web_entry
   \<and> dict_get (case web_entry of PDict d \<Rightarrow> d | _ \<Rightarrow> []) ''serviceName'' PNone = PStr (get_ecs_service_name web_service)
   \<and> result (EcsService_create already_exists_client web_service) = False"
  by (simp add: already_exists_client_def EcsService_create_def EcsService_read_def
      web_entry_def dict_get_def get_ecs_service_name_def web_service_def Let_def)

text \<open>
  Claim C3, amended. For every descriptor, if the remote create call raises, whatever the
  exception, an "already exists" error included, \<^verbatim>\<open>_create\<close> returns \<^verbatim>\<open>False\<close>, leaves the
  descriptor and its cache unchanged, and has made the create call only (no describe call
  compares identities).
\<close>

theorem create_raise_reports_failure:
  "service_client (CreateService (create_kwargs self)) = Raises e \<Longrightarrow>
   result (EcsService_create service_client self) = False
   \<and> self_after (EcsService_create service_client self) = self
   \<and> remote_calls (trace (EcsService_create service_client self)) = [CreateService (create_kwargs self)]"
  by (simp add: create_outcome_raises remote_calls_def)

theorem create_raise_reports_failure_witness:
  "already_exists_client (CreateService (create_kwargs web_service))
     = Raises (ClientError ''InvalidParameterException: service already exists'')
   \<and> result (EcsService_create already_exists_client web_service) = False
   \<and> self_after (EcsService_create already_exists_client web_service) = web_service
   \<and> remote_calls (trace (EcsService_create already_exists_client web_service)) = [CreateService (create_kwargs web_service)]"
proof -
  have h: "already_exists_client (CreateService (create_kwargs web_service))
     = Raises (ClientError ''InvalidParameterException: service already exists'')"
    by (simp add: already_exists_client_def)
  show ?thesis
    using h create_raise_reports_failure [of already_exists_client web_service, OF h] by simp
qed

section \<open>Delete of an absent resource\<close>

text \<open>
  Claim C4 says that \<^verbatim>\<open>_delete\<close> succeeds when the resource is absent already. On the
  remote below the service is absent (the describe call lists nothing, \<^verbatim>\<open>_read\<close> returns
  \<^verbatim>\<open>None\<close>) and the delete call raises, as for a service that is not found; \<^verbatim>\<open>_delete\<close>
  returns \<^verbatim>\<open>False\<close>.
\<close>

theorem delete_of_absent_reports_failure:
  "result (EcsService_read absent_client web_service) = None
   \<and> absent_client (DeleteService (delete_kwargs web_service)) = Raises (ClientError ''ServiceNotFoundException'')
   \<and> result (EcsService_delete absent_client web_service) = False"
  by (simp add: absent_client_def EcsService_read_def EcsService_delete_def dict_get_def
      web_service_def Let_def)

text \<open>
  Claim C4, amended. For every descriptor, \<^verbatim>\<open>_delete\<close> makes the remote delete call and no
  other call, and returns \<^verbatim>\<open>True\<close> exactly when that call returns without raising; whether
  the resource exists is never looked at, so the result for an absent resource is
  whatever the remote delete call makes of it.
\<close>

theorem delete_success_iff_call_returns:
  "(result (EcsService_delete service_client self) = True)
     = (\<exists>resp. service_client (DeleteService (delete_kwargs self)) = Returns resp)
   \<and> remote_calls (trace (EcsService_delete service_client self)) = [DeleteService (delete_kwargs self)]"
  by (cases "service_client (DeleteService (delete_kwargs self))")
    (simp_all add: delete_outcome remote_calls_def)

theorem delete_success_iff_call_returns_witness:
  "result (EcsService_delete empty_response_client web_service) = True
   \<and> result (EcsService_delete absent_client web_service) = False
   \<and> remote_calls (trace (EcsService_delete absent_client web_service)) = [DeleteService (delete_kwargs web_service)]"
  using delete_success_iff_call_returns [of empty_response_client web_service]
    delete_success_iff_call_returns [of absent_client web_service]
  by (simp add: empty_response_client_def absent_client_def)

section \<open>The cache after read and delete\<close>

text \<open>
  Claim C5 says that after \<^verbatim>\<open>_read\<close> the cache holds no value when the current response
  has no matching active entry. The descriptor below has the entry of an earlier
  observation in its cache; the describe call now lists no service, and after \<^verbatim>\<open>_read\<close>
  the cache still holds the earlier entry, which is also what \<^verbatim>\<open>_read\<close> returns.
\<close>

theorem read_keeps_stale_cache:
  "absent_client (DescribeServices (read_kwargs cached_service))
     = Returns [(''services'', PList []),
                (''failures'', PList [PDict [(''reason'', PStr ''MISSING'')]])]
   \<and> active_resource cached_service = Some web_entry
   \<and> active_resource (self_after (EcsService_read absent_client cached_service)) = Some web_entry
   \<and> result (EcsService_read absent_client cached_service) = Some web_entry"
  by (simp add: absent_client_def EcsService_read_def dict_get_def cached_service_def Let_def)

text \<open>
  Claim C5, amended. After every call of \<^verbatim>\<open>_read\<close>: when the describe call returns a
  response that holds an active entry of the service, the cache holds the first such
  entry; in every other case the cache keeps the value it had before the call. \<^verbatim>\<open>_read\<close>
  returns the cache. After every call of \<^verbatim>\<open>_delete\<close> the cache holds no value.
\<close>

theorem cache_after_read_and_delete:
  "active_resource (self_after (EcsService_read service_client self)) =
     (case described_active (get_ecs_service_name self)
             (service_client (DescribeServices (read_kwargs self))) of
        Some r \<Rightarrow> Some r
      | None \<Rightarrow> active_resource self)
   \<and> result (EcsService_read service_client self)
       = active_resource (self_after (EcsService_read service_client self))
   \<and> active_resource (self_after (EcsService_delete service_client self)) = None"
  by (simp add: read_outcome delete_outcome split: option.splits)

theorem cache_after_read_and_delete_witness:
  "active_resource (self_after (EcsService_read already_exists_client web_service)) = Some web_entry
   \<and> active_resource (self_after (EcsService_read absent_client cached_service)) = Some web_entry
   \<and> active_resource (self_after (EcsService_read denied_client cached_service)) = Some web_entry
   \<and> active_resource (self_after (EcsService_delete absent_client cached_service)) = None"
proof -
  have n: "get_ecs_service_name web_service = ''web''" "get_ecs_service_name cached_service = ''web''"
    by (simp_all add: get_ecs_service_name_def cached_service_def web_service_def)
  have "described_active ''web'' (already_exists_client (DescribeServices (read_kwargs web_service))) = Some web_entry"
    by (simp add: described_active_def already_exists_client_def dict_get_def
        first_active_entry_def web_entry_def)
  moreover have "described_active ''web'' (absent_client (DescribeServices (read_kwargs cached_service))) = None"
    by (simp add: described_active_def absent_client_def dict_get_def first_active_entry_def)
  moreover have "described_active ''web'' (denied_client (DescribeServices (read_kwargs cached_service))) = None"
    by (simp add: described_active_def denied_client_def)
  moreover have "active_resource cached_service = Some web_entry"
    by (simp add: cached_service_def)
  ultimately show ?thesis
    using cache_after_read_and_delete [of already_exists_client web_service]
      cache_after_read_and_delete [of absent_client cached_service]
      cache_after_read_and_delete [of denied_client cached_service]
    by (simp add: n)
qed

section \<open>Failures of the remote call\<close>

text \<open>
  Claim C6 says that a failed describe is distinguishable, in the result, from the
  resource being absent. For the scenario's descriptor, a describe call that is refused
  for lack of permission and a describe call that lists no service give the same result
  of \<^verbatim>\<open>_read\<close>, \<^verbatim>\<open>None\<close>, and the same object afterwards.
\<close>

theorem failed_describe_looks_like_absence:
  "denied_client (DescribeServices (read_kwargs web_service)) = Raises (ClientError ''AccessDeniedException'')
   \<and> absent_client (DescribeServices (read_kwargs web_service))
       = Returns [(''services'', PList []),
                  (''failures'', PList [PDict [(''reason'', PStr ''MISSING'')]])]
   \<and> result (EcsService_read denied_client web_service) = None
   \<and> result (EcsService_read absent_client web_service) = None
   \<and> self_after (EcsService_read denied_client web_service)
       = self_after (EcsService_read absent_client web_service)"
  by (simp add: absent_client_def denied_client_def EcsService_read_def dict_get_def
      web_service_def Let_def)

text \<open>
  Claim C6, amended. For every descriptor: if the remote call of \<^verbatim>\<open>_create\<close> raises,
  \<^verbatim>\<open>_create\<close> returns \<^verbatim>\<open>False\<close>; if the remote call of \<^verbatim>\<open>_delete\<close> raises, \<^verbatim>\<open>_delete\<close>
  returns \<^verbatim>\<open>False\<close>; if the describe call of \<^verbatim>\<open>_read\<close> raises, \<^verbatim>\<open>_read\<close> returns the cached
  state and changes nothing, which is also what it does when the response holds no active
  entry of the service.
\<close>

theorem remote_failure_results:
  "(service_client (CreateService (create_kwargs self)) = Raises e
      \<longrightarrow> result (EcsService_create service_client self) = False)
   \<and> (service_client (DeleteService (delete_kwargs self)) = Raises e
      \<longrightarrow> result (EcsService_delete service_client self) = False)
   \<and> (service_client (DescribeServices (read_kwargs self)) = Raises e
      \<longrightarrow> result (EcsService_read service_client self) = active_resource self
        \<and> self_after (EcsService_read service_client self) = self)
   \<and> (described_active (get_ecs_service_name self)
         (service_client (DescribeServices (read_kwargs self))) = None
      \<longrightarrow> result (EcsService_read service_client self) = active_resource self
        \<and> self_after (EcsService_read service_client self) = self)"
  by (simp add: create_outcome_raises delete_outcome read_outcome described_active_def)

theorem remote_failure_results_witness:
  "denied_client (CreateService (create_kwargs cached_service)) = Raises (ClientError ''AccessDeniedException'')
   \<and> denied_client (DeleteService (delete_kwargs cached_service)) = Raises (ClientError ''AccessDeniedException'')
   \<and> denied_client (DescribeServices (read_kwargs cached_service)) = Raises (ClientError ''AccessDeniedException'')
   \<and> result (EcsService_create denied_client cached_service) = False
   \<and> result (EcsService_delete denied_client cached_service) = False
   \<and> result (EcsService_read denied_client cached_service) = Some web_entry
   \<and> result (EcsService_read absent_client cached_service) = Some web_entry"
proof -
  have d: "denied_client (CreateService (create_kwargs cached_service)) = Raises (ClientError ''AccessDeniedException'')"
    "denied_client (DeleteService (delete_kwargs cached_service)) = Raises (ClientError ''AccessDeniedException'')"
    "denied_client (DescribeServices (read_kwargs cached_service)) = Raises (ClientError ''AccessDeniedException'')"
    by (simp_all add: denied_client_def)
  have a: "described_active (get_ecs_service_name cached_service)
             (absent_client (DescribeServices (read_kwargs cached_service))) = None"
    by (simp add: described_active_def absent_client_def dict_get_def first_active_entry_def)
  have c: "active_resource cached_service = Some web_entry"
    by (simp add: cached_service_def)
  show ?thesis
    using d a c
      remote_failure_results [of denied_client cached_service "ClientError ''AccessDeniedException''"]
      remote_failure_results [of absent_client cached_service]
    by simp
qed

section \<open>Determinism of the payload\<close>

text \<open>
  Claim C7. For every descriptor, building the create payload is deterministic and free
  of side effects on the declared fields: after a first \<^verbatim>\<open>_create\<close>, whatever the remote
  answered, the payload built from the object is the one built before, a second
  \<^verbatim>\<open>_create\<close> sends the identical request, and the object differs from the original in
  nothing but the cached state.
\<close>

theorem create_payload_deterministic:
  "create_not_null_args (self_after (EcsService_create c1 self)) = create_not_null_args self
   \<and> remote_calls (trace (EcsService_create c2 (self_after (EcsService_create c1 self))))
       = remote_calls (trace (EcsService_create c1 self))
   \<and> (self_after (EcsService_create c1 self))\<lparr>active_resource := active_resource self\<rparr> = self"
proof -
  obtain a where a: "self_after (EcsService_create c1 self) = self\<lparr>active_resource := a\<rparr>"
    using create_self_after by blast
  show ?thesis
    by (simp add: a create_not_null_args_cache_independent create_remote_calls
        create_kwargs_cache_independent)
qed

theorem create_payload_deterministic_witness:
  "create_not_null_args (self_after (EcsService_create empty_response_client web_service))
     = create_not_null_args web_service
   \<and> remote_calls (trace (EcsService_create denied_client
         (self_after (EcsService_create empty_response_client web_service))))
       = remote_calls (trace (EcsService_create empty_response_client web_service))
   \<and> active_resource (self_after (EcsService_create empty_response_client web_service)) = Some (PDict [])
   \<and> (self_after (EcsService_create empty_response_client web_service))\<lparr>active_resource := None\<rparr> = web_service"
proof -
  have "active_resource web_service = None" by (simp add: web_service_def)
  moreover have "active_resource (self_after (EcsService_create empty_response_client web_service)) = Some (PDict [])"
    by (simp add: EcsService_create_def empty_response_client_def dict_get_def)
  ultimately show ?thesis
    using create_payload_deterministic [of empty_response_client web_service denied_client]
    by simp
qed

section \<open>Parent references in the requests\<close>

text \<open>
  Claim C8 says that an unset parent reference puts no key into any remote request. The
  scenario's descriptor leaves \<^verbatim>\<open>task_definition\<close> unset: the resolver yields no value, and
  the create request that \<^verbatim>\<open>_create\<close> sends carries the key \<^verbatim>\<open>taskDefinition\<close> with the
  value \<^verbatim>\<open>None\<close>.
\<close>

theorem create_sends_null_task_definition:
  "task_definition web_service = None
   \<and> get_ecs_task_definition web_service = None
   \<and> create_kwargs web_service ''taskDefinition'' = Some PNone
   \<and> remote_calls (trace (EcsService_create denied_client web_service))
       = [CreateService (create_kwargs web_service)]"
  by (simp add: create_remote_calls create_kwargs_task_definition get_ecs_task_definition_def
      web_service_def)

section \<open>The result of create\<close>

text \<open>
  Claim C9. \<^verbatim>\<open>_create\<close> returns \<^verbatim>\<open>True\<close> if and only if the remote create call returns
  without raising and the response's \<^verbatim>\<open>"service"\<close> entry is not \<^verbatim>\<open>None\<close>; in particular a
  response without a \<^verbatim>\<open>"service"\<close> key counts as success.
\<close>

theorem create_success_iff:
  "((result (EcsService_create service_client self) = True)
      = (\<exists>resp. service_client (CreateService (create_kwargs self)) = Returns resp
               \<and> map_of resp ''service'' \<noteq> Some PNone))
   \<and> (\<forall>resp. service_client (CreateService (create_kwargs self)) = Returns resp
               \<and> map_of resp ''service'' = None
         \<longrightarrow> result (EcsService_create service_client self) = True)"
  by (cases "service_client (CreateService (create_kwargs self))")
    (simp_all add: create_outcome_returns create_outcome_raises)

theorem create_success_iff_witness:
  "empty_response_client (CreateService (create_kwargs web_service)) = Returns []
   \<and> map_of ([] :: pydict) ''service'' = None
   \<and> result (EcsService_create empty_response_client web_service) = True
   \<and> result (EcsService_create null_service_client web_service) = False
   \<and> result (EcsService_create denied_client web_service) = False"
  using create_success_iff [of empty_response_client web_service]
    create_success_iff [of null_service_client web_service]
    create_success_iff [of denied_client web_service]
  by (simp add: empty_response_client_def null_service_client_def denied_client_def)

section \<open>Delete clears the cache first\<close>

text \<open>
  Claim C10. \<^verbatim>\<open>_delete\<close> sets the cached state to \<^verbatim>\<open>None\<close> before it issues the remote
  delete call, so the cache holds no value afterwards, also when the call raises and
  \<^verbatim>\<open>_delete\<close> returns \<^verbatim>\<open>False\<close>.
\<close>

theorem delete_clears_cache_before_call:
  "trace (EcsService_delete service_client self)
     = [CacheAssign None, RemoteCall (DeleteService (delete_kwargs self))]
   \<and> active_resource (self_after (EcsService_delete service_client self)) = None
   \<and> (service_client (DeleteService (delete_kwargs self)) = Raises e
       \<longrightarrow> result (EcsService_delete service_client self) = False
         \<and> active_resource (self_after (EcsService_delete service_client self)) = None)"
  by (simp add: delete_outcome)

theorem delete_clears_cache_before_call_witness:
  "active_resource cached_service = Some web_entry
   \<and> denied_client (DeleteService (delete_kwargs cached_service)) = Raises (ClientError ''AccessDeniedException'')
   \<and> result (EcsService_delete denied_client cached_service) = False
   \<and> active_resource (self_after (EcsService_delete denied_client cached_service)) = None
   \<and> trace (EcsService_delete denied_client cached_service)
       = [CacheAssign None, RemoteCall (DeleteService (delete_kwargs cached_service))]"
proof -
  have h: "denied_client (DeleteService (delete_kwargs cached_service)) = Raises (ClientError ''AccessDeniedException'')"
    by (simp add: denied_client_def)
  have c: "active_resource cached_service = Some web_entry"
    by (simp add: cached_service_def)
  show ?thesis
    using h c delete_clears_cache_before_call [of denied_client cached_service "ClientError ''AccessDeniedException''"]
    by simp
qed

end
